theory Spec2Isabelle
  imports Main "HOL-Library.Word"
begin

section \<open>The MeloTTS HTTP wrapper (main.py)\<close>

text \<open>
  main.py holds two module globals (\<open>model_instance\<close>, \<open>loading_error\<close>), a startup
  routine \<open>load_model\<close> that writes them, and two request handlers (\<open>read_root\<close> for
  GET /, \<open>generate_speech\<close> for POST /tts) that read them. Model construction,
  synthesis and WAV encoding belong to external libraries (melo, torch, soundfile): they
  are parameters of the model, each call returning either the exception it raised or its
  value. So are the writes to the standard streams (\<open>print\<close>,
  \<open>traceback.print_exc\<close>), which raise when the stream cannot take the line. Every
  routine is a function from the globals (and the request) to the globals after the call,
  the effects it attempted in order, and the way it ended.
\<close>

subsection \<open>Exceptions and external collaborators\<close>

text \<open>
  A raised Python exception. \<open>is_Exception\<close> says whether the object is an instance
  of the class \<open>Exception\<close>, which is what the clause \<open>except Exception as e\<close> tests;
  \<open>SystemExit\<close>, \<open>KeyboardInterrupt\<close> and \<open>GeneratorExit\<close> derive from
  \<open>BaseException\<close> only. \<open>exc_str\<close> is what formatting \<open>{e}\<close> in an f-string does:
  it gives the text of the exception, or raises another exception (a \<open>__str__\<close> that
  fails). Formatting the same exception twice gives the same result.
\<close>

datatype py_exception = PyException (is_Exception: bool) (exc_str: "py_exception + string")

type_synonym bytes = "8 word list"

text \<open>
  The external collaborators, for a type \<open>'m\<close> of model handles and a type \<open>'a\<close> of
  sample arrays:
  \<^item> \<open>RENDER_INSTANCE_ID\<close>: the environment variable read by \<open>os.getenv\<close>;
  \<^item> \<open>print_stdout\<close>: \<open>print(line)\<close>, which returns (\<open>None\<close>) or raises, for
    instance \<open>UnicodeEncodeError\<close> for a line the stream cannot encode;
  \<^item> \<open>print_exc\<close>: \<open>traceback.print_exc()\<close> while the given exception is handled;
  \<^item> \<open>cuda_is_available\<close>: \<open>torch.cuda.is_available()\<close>;
  \<^item> \<open>TTS\<close>: the constructor \<open>TTS(language=..., device=...)\<close>;
  \<^item> \<open>synthesize\<close>: \<open>model_instance.synthesize(text, voice_name)\<close>;
  \<^item> \<open>sampling_rate\<close>: reading the attribute \<open>model_instance.hps.data.sampling_rate\<close>;
  \<^item> \<open>sf_write\<close>: \<open>sf.write(buffer, data, samplerate, format=...)\<close> on a fresh
    \<open>io.BytesIO()\<close>, giving the bytes that \<open>getvalue()\<close> then returns.

  Building the \<open>BytesIO\<close> and the \<open>Response\<close> objects, slicing and formatting strings,
  \<open>os.getenv\<close> and \<open>import traceback\<close> are taken not to raise.
\<close>

record ('m, 'a) externals =
  RENDER_INSTANCE_ID :: "string option"
  print_stdout :: "string \<Rightarrow> py_exception option"
  print_exc :: "py_exception \<Rightarrow> py_exception option"
  cuda_is_available :: "py_exception + bool"
  TTS :: "string \<Rightarrow> string \<Rightarrow> py_exception + 'm"
  synthesize :: "'m \<Rightarrow> string \<Rightarrow> string \<Rightarrow> py_exception + 'a"
  sampling_rate :: "'m \<Rightarrow> py_exception + int"
  sf_write :: "'a \<Rightarrow> int \<Rightarrow> string \<Rightarrow> py_exception + bytes"

text \<open>
  The effects a routine attempts, in the order it attempts them: an effect is listed
  whether the write or the call returns or raises.
\<close>

datatype ('m, 'a) effect =
    Print string
  | Print_exc py_exception
  | Call_cuda_is_available
  | Call_TTS string string
  | Call_synthesize 'm string string
  | Call_sf_write 'a int string

subsection \<open>Globals, requests and outcomes\<close>

text \<open>
  The two module globals of lines 34-35; \<open>None\<close> is Python's \<open>None\<close>. Both start
  as \<open>None\<close>.
\<close>

record 'm globals =
  model_instance :: "'m option"
  loading_error :: "string option"

definition initial_globals :: "'m globals" where
  "initial_globals = \<lparr>model_instance = None, loading_error = None\<rparr>"

text \<open>The pydantic model \<open>TTSRequest\<close> of lines 64-66.\<close>

record TTSRequest =
  text_field :: string
  voice_name :: string

text \<open>
  How a handler ends: it returns a dict (FastAPI sends it as JSON), returns a
  \<open>Response(content, media_type)\<close>, raises \<open>HTTPException(status_code, detail)\<close>, or
  lets another exception propagate to its caller.
\<close>

datatype outcome =
    Return_dict "(string \<times> string) list"
  | Return_Response bytes string
  | Raise_HTTPException int string
  | Propagate py_exception

text \<open>
  The status code FastAPI answers with: 200 for a returned dict and for a
  \<open>Response\<close> built without \<open>status_code\<close>, the exception's own code for an
  \<open>HTTPException\<close> (whose body is \<open>{detail: ...}\<close>). An exception that propagates is
  not a response of the handler.
\<close>

fun status_code :: "outcome \<Rightarrow> int option" where
  "status_code (Return_dict d) = Some 200"
| "status_code (Return_Response content media_type) = Some 200"
| "status_code (Raise_HTTPException code detail) = Some code"
| "status_code (Propagate e) = None"

fun content_type :: "outcome \<Rightarrow> string option" where
  "content_type (Return_dict d) = Some ''application/json''"
| "content_type (Return_Response content media_type) = Some media_type"
| "content_type (Raise_HTTPException code detail) = Some ''application/json''"
| "content_type (Propagate e) = None"

subsection \<open>Python truth values and formatting\<close>

text \<open>
  \<open>if loading_error:\<close> tests the truth value of \<open>None\<close> or a string: \<open>None\<close> and
  the empty string are false. \<open>{loading_error}\<close> in an f-string formats the value.
\<close>

fun truthy :: "string option \<Rightarrow> bool" where
  "truthy None = False"
| "truthy (Some s) = (s \<noteq> [])"

fun format_opt :: "string option \<Rightarrow> string" where
  "format_opt None = ''None''"
| "format_opt (Some s) = s"

text \<open>The prefix of every log line: \<open>[{os.getenv('RENDER_INSTANCE_ID', 'local')}]\<close>.\<close>

definition log_tag :: "('m, 'a) externals \<Rightarrow> string" where
  "log_tag ext =
     ''['' @ (case RENDER_INSTANCE_ID ext of None \<Rightarrow> ''local'' | Some v \<Rightarrow> v) @ '']''"

subsection \<open>The startup routine (lines 37-62)\<close>

text \<open>The four log lines of the routine.\<close>

definition start_line :: "('m, 'a) externals \<Rightarrow> string" where
  "start_line ext = log_tag ext @ '' Starting model loading...''"

definition attempt_line :: "('m, 'a) externals \<Rightarrow> string \<Rightarrow> string" where
  "attempt_line ext device =
     log_tag ext @ '' Attempting to load MeloTTS model on device: '' @ device"

definition loaded_line :: "('m, 'a) externals \<Rightarrow> string" where
  "loaded_line ext = log_tag ext @ '' MeloTTS model loaded successfully.''"

definition load_error_line :: "('m, 'a) externals \<Rightarrow> string \<Rightarrow> string" where
  "load_error_line ext msg = log_tag ext @ '' ERROR: '' @ msg"

text \<open>
  The \<open>try\<close> block (lines 41-52): the globals when the block is left, the effects, and
  the exception that interrupted it, if one did. \<open>model_instance\<close> is assigned once the
  constructor has returned, before the last line is printed.
\<close>

definition load_model_try ::
  "('m, 'a) externals \<Rightarrow> 'm globals \<Rightarrow>
     'm globals \<times> ('m, 'a) effect list \<times> py_exception option" where
  "load_model_try ext g =
     (let e1 = [Print (start_line ext)]
      in case print_stdout ext (start_line ext) of
           Some e \<Rightarrow> (g, e1, Some e)
         | None \<Rightarrow>
             (let e2 = e1 @ [Call_cuda_is_available]
              in case cuda_is_available ext of
                   Inl e \<Rightarrow> (g, e2, Some e)
                 | Inr available \<Rightarrow>
                     (let device = (if available then ''cuda'' else ''cpu'');
                          e3 = e2 @ [Print (attempt_line ext device)]
                      in case print_stdout ext (attempt_line ext device) of
                           Some e \<Rightarrow> (g, e3, Some e)
                         | None \<Rightarrow>
                             (let e4 = e3 @ [Call_TTS ''en'' device]
                              in case TTS ext ''en'' device of
                                   Inl e \<Rightarrow> (g, e4, Some e)
                                 | Inr m \<Rightarrow>
                                     (g\<lparr>model_instance := Some m\<rparr>,
                                      e4 @ [Print (loaded_line ext)],
                                      print_stdout ext (loaded_line ext))))))"

text \<open>
  The body of the \<open>except Exception as e\<close> clause (lines 59-60), entered with an
  instance of \<open>Exception\<close>: the message is formatted and assigned to \<open>loading_error\<close>,
  then printed. An exception raised by the formatting or by the print leaves the routine.
\<close>

definition load_model_except ::
  "('m, 'a) externals \<Rightarrow> 'm globals \<Rightarrow> ('m, 'a) effect list \<Rightarrow> py_exception \<Rightarrow>
     'm globals \<times> ('m, 'a) effect list \<times> py_exception option" where
  "load_model_except ext g effs e =
     (case exc_str e of
        Inl e' \<Rightarrow> (g, effs, Some e')
      | Inr s \<Rightarrow>
          (let msg = ''Failed to load MeloTTS model: '' @ s
           in (g\<lparr>loading_error := Some msg\<rparr>,
               effs @ [Print (load_error_line ext msg)],
               print_stdout ext (load_error_line ext msg))))"

text \<open>
  The routine: the globals afterwards, the effects, and the exception that left the
  routine, if one did. An exception that is not an instance of \<open>Exception\<close> passes the
  \<open>except\<close> clause.
\<close>

definition load_model ::
  "('m, 'a) externals \<Rightarrow> 'm globals \<Rightarrow>
     'm globals \<times> ('m, 'a) effect list \<times> py_exception option" where
  "load_model ext g =
     (case load_model_try ext g of
        (g', effs, None) \<Rightarrow> (g', effs, None)
      | (g', effs, Some e) \<Rightarrow>
          if is_Exception e then load_model_except ext g' effs e else (g', effs, Some e))"

subsection \<open>The status handler (lines 68-74)\<close>

text \<open>
  The handler prints nothing and calls no collaborator: its result is the globals after
  the call and the way it ended.
\<close>

definition read_root :: "'m globals \<Rightarrow> 'm globals \<times> outcome" where
  "read_root g =
     (if truthy (loading_error g) then
        (g, Return_dict
           [(''status'', ''error''),
            (''message'', ''API is running but model failed to load: ''
                          @ format_opt (loading_error g))])
      else if model_instance g = None then
        (g, Return_dict
           [(''status'', ''loading''),
            (''message'', ''MeloTTS model is still loading or failed to load. Please try again shortly.'')])
      else
        (g, Return_dict
           [(''status'', ''ready''),
            (''message'', ''MeloTTS API is running and model is loaded.'')]))"

subsection \<open>The synthesis handler (lines 76-113)\<close>

text \<open>The log lines of the handler.\<close>

definition received_line :: "('m, 'a) externals \<Rightarrow> TTSRequest \<Rightarrow> string" where
  "received_line ext request =
     log_tag ext @ '' Received TTS request for voice: '' @ voice_name request
     @ '', text: '' @ [CHR 0x27] @ take 50 (text_field request) @ ''...'' @ [CHR 0x27]"

definition success_line :: "('m, 'a) externals \<Rightarrow> string" where
  "success_line ext = log_tag ext @ '' Successfully generated audio.''"

definition error_line :: "('m, 'a) externals \<Rightarrow> string \<Rightarrow> string" where
  "error_line ext s = log_tag ext @ '' ERROR during TTS generation: '' @ s"

text \<open>
  The body of the \<open>try\<close> block (lines 87-106) for the model handle \<open>m\<close>: the effects,
  and either the exception that interrupted it or the response it returns. On line 102
  the sampling rate is read before \<open>sf.write\<close> is called.
\<close>

definition generate_speech_try ::
  "('m, 'a) externals \<Rightarrow> 'm \<Rightarrow> TTSRequest \<Rightarrow> ('m, 'a) effect list \<times> (py_exception + outcome)" where
  "generate_speech_try ext m request =
     (let e1 = [Print (received_line ext request)]
      in case print_stdout ext (received_line ext request) of
           Some e \<Rightarrow> (e1, Inl e)
         | None \<Rightarrow>
             (let e2 = e1 @ [Call_synthesize m (text_field request) (voice_name request)]
              in case synthesize ext m (text_field request) (voice_name request) of
                   Inl e \<Rightarrow> (e2, Inl e)
                 | Inr audio_data_np \<Rightarrow>
                     (case sampling_rate ext m of
                        Inl e \<Rightarrow> (e2, Inl e)
                      | Inr rate \<Rightarrow>
                          (let e3 = e2 @ [Call_sf_write audio_data_np rate ''WAV'']
                           in case sf_write ext audio_data_np rate ''WAV'' of
                                Inl e \<Rightarrow> (e3, Inl e)
                              | Inr wav \<Rightarrow>
                                  (let e4 = e3 @ [Print (success_line ext)]
                                   in case print_stdout ext (success_line ext) of
                                        Some e \<Rightarrow> (e4, Inl e)
                                      | None \<Rightarrow>
                                          (e4, Inr (Return_Response wav ''audio/wav'')))))))"

text \<open>
  The body of the \<open>except Exception as e\<close> clause (lines 108-113), entered with an
  instance of \<open>Exception\<close>: the exception is formatted and the error line printed, the
  traceback is printed, and \<open>HTTPException\<close> 500 is raised with the formatted exception
  in its detail. An exception raised by the formatting or by one of the two writes leaves
  the handler.
\<close>

definition generate_speech_except ::
  "('m, 'a) externals \<Rightarrow> py_exception \<Rightarrow> ('m, 'a) effect list \<times> outcome" where
  "generate_speech_except ext e =
     (case exc_str e of
        Inl e' \<Rightarrow> ([], Propagate e')
      | Inr s \<Rightarrow>
          (case print_stdout ext (error_line ext s) of
             Some e' \<Rightarrow> ([Print (error_line ext s)], Propagate e')
           | None \<Rightarrow>
               (case print_exc ext e of
                  Some e' \<Rightarrow> ([Print (error_line ext s), Print_exc e], Propagate e')
                | None \<Rightarrow>
                    ([Print (error_line ext s), Print_exc e],
                     Raise_HTTPException 500
                       (''TTS generation failed: '' @ s
                        @ ''. Check server logs for details.'')))))"

text \<open>
  The handler: the three guards of lines 78-84, then the \<open>try\<close> block with its
  \<open>except Exception as e\<close> clause. An exception that is not an instance of
  \<open>Exception\<close> passes the clause. The handler declares no global, so the globals it
  returns are the ones it was given.
\<close>

definition generate_speech ::
  "('m, 'a) externals \<Rightarrow> 'm globals \<Rightarrow> TTSRequest \<Rightarrow>
     'm globals \<times> ('m, 'a) effect list \<times> outcome" where
  "generate_speech ext g request =
     (if truthy (loading_error g) then
        (g, [], Raise_HTTPException 503
           (''Service Unavailable: Model failed to load: '' @ format_opt (loading_error g)))
      else case model_instance g of
        None \<Rightarrow>
          (g, [], Raise_HTTPException 503
             ''Service Unavailable: MeloTTS model is still loading. Please try again shortly.'')
      | Some m \<Rightarrow>
          if text_field request = [] then
            (g, [], Raise_HTTPException 400 ''Text input is required.'')
          else
            (case generate_speech_try ext m request of
               (effs, Inr response) \<Rightarrow> (g, effs, response)
             | (effs, Inl e) \<Rightarrow>
                 if is_Exception e then
                   (case generate_speech_except ext e of
                      (effs', out) \<Rightarrow> (g, effs @ effs', out))
                 else (g, effs, Propagate e)))"

text \<open>The calls of the external synthesis function among a list of effects.\<close>

fun is_synthesize_call :: "('m, 'a) effect \<Rightarrow> bool" where
  "is_synthesize_call (Call_synthesize m t v) = True"
| "is_synthesize_call _ = False"

definition synthesize_calls :: "('m, 'a) effect list \<Rightarrow> ('m, 'a) effect list" where
  "synthesize_calls effs = filter is_synthesize_call effs"

subsection \<open>Concrete collaborators for evaluating the routines\<close>

text \<open>
  Some exceptions: a \<open>RuntimeError\<close>; a \<open>SystemExit\<close>, which is not an instance of
  \<open>Exception\<close>; the \<open>UnicodeEncodeError\<close> of a stream that cannot encode a line; an
  \<open>OSError\<close> of a closed stream; an exception whose \<open>__str__\<close> raises a
  \<open>TypeError\<close>; and a \<open>RuntimeError\<close> whose text holds a lone surrogate.
\<close>

definition runtime_error :: py_exception where
  "runtime_error = PyException True (Inr ''out of memory'')"

definition system_exit :: py_exception where
  "system_exit = PyException False (Inr ''1'')"

definition unicode_encode_error :: py_exception where
  "unicode_encode_error = PyException True (Inr ''surrogates not allowed'')"

definition broken_pipe_error :: py_exception where
  "broken_pipe_error = PyException True (Inr ''[Errno 32] Broken pipe'')"

definition unformattable_error :: py_exception where
  "unformattable_error =
     PyException True (Inl (PyException True (Inr ''__str__ returned non-string'')))"

definition surrogate_error :: py_exception where
  "surrogate_error = PyException True (Inr [CHR 0xED, CHR 0xA0, CHR 0x80])"

text \<open>
  A standard output that raises \<open>UnicodeEncodeError\<close> for a line holding a character it
  cannot encode: here, every character beyond ASCII.
\<close>

definition strict_stdout :: "string \<Rightarrow> py_exception option" where
  "strict_stdout line =
     (if list_all (\<lambda>c. (of_char c :: nat) < 128) line then None
      else Some unicode_encode_error)"

text \<open>
  Handles are numbers and sample arrays are integer lists. In \<open>example_externals\<close> no
  GPU is present and every call succeeds; the samples are the character codes of the
  text, and the encoder puts four bytes before the samples.
\<close>

definition example_externals :: "(nat, int list) externals" where
  "example_externals =
     \<lparr>RENDER_INSTANCE_ID = None,
      print_stdout = strict_stdout,
      print_exc = (\<lambda>e. None),
      cuda_is_available = Inr False,
      TTS = (\<lambda>language device. Inr 7),
      synthesize = (\<lambda>m t v. Inr (map (\<lambda>c. int (of_char c)) t)),
      sampling_rate = (\<lambda>m. Inr 44100),
      sf_write = (\<lambda>data rate fmt. Inr ([0x52, 0x49, 0x46, 0x46] @ map word_of_int data))\<rparr>"

definition example_ready :: "nat globals" where
  "example_ready = \<lparr>model_instance = Some 7, loading_error = None\<rparr>"

definition example_failed :: "nat globals" where
  "example_failed =
     \<lparr>model_instance = None,
      loading_error = Some ''Failed to load MeloTTS model: out of memory''\<rparr>"

definition hello_request :: TTSRequest where
  "hello_request = \<lparr>text_field = ''Hello world'', voice_name = ''EN-US''\<rparr>"

definition empty_request :: TTSRequest where
  "empty_request = \<lparr>text_field = [], voice_name = ''EN-US''\<rparr>"

definition blank_request :: TTSRequest where
  "blank_request = \<lparr>text_field = ''   '', voice_name = ''EN-US''\<rparr>"

text \<open>A request whose text is the lone surrogate U+D800, which no stream encodes.\<close>

definition surrogate_request :: TTSRequest where
  "surrogate_request =
     \<lparr>text_field = [CHR 0xED, CHR 0xA0, CHR 0x80], voice_name = ''EN-US''\<rparr>"

text \<open>Variants of \<open>example_externals\<close> in which one collaborator raises.\<close>

definition constructor_raising :: "py_exception \<Rightarrow> (nat, int list) externals" where
  "constructor_raising e = example_externals\<lparr>TTS := \<lambda>language device. Inl e\<rparr>"

definition synthesize_raising :: "py_exception \<Rightarrow> (nat, int list) externals" where
  "synthesize_raising e = example_externals\<lparr>synthesize := \<lambda>m t v. Inl e\<rparr>"

definition encoder_raising :: "py_exception \<Rightarrow> (nat, int list) externals" where
  "encoder_raising e = example_externals\<lparr>sf_write := \<lambda>data rate fmt. Inl e\<rparr>"

definition traceback_raising :: "py_exception \<Rightarrow> (nat, int list) externals" where
  "traceback_raising e = (synthesize_raising runtime_error)\<lparr>print_exc := \<lambda>x. Some e\<rparr>"

section \<open>Properties\<close>

subsection \<open>Auxiliary facts\<close>

text \<open>
  The \<open>try\<close> block of the startup routine: when a step up to the constructor raises,
  the block is left with that exception and the globals untouched; when the constructor
  returns, the handle is assigned and the block ends as the last print does.
\<close>

lemma load_model_try_raises:
  assumes "print_stdout ext (start_line ext) = Some e
           \<or> (print_stdout ext (start_line ext) = None
              \<and> (cuda_is_available ext = Inl e
                 \<or> (cuda_is_available ext = Inr available
                    \<and> (print_stdout ext
                          (attempt_line ext (if available then ''cuda'' else ''cpu'')) = Some e
                       \<or> (print_stdout ext
                             (attempt_line ext (if available then ''cuda'' else ''cpu'')) = None
                          \<and> TTS ext ''en'' (if available then ''cuda'' else ''cpu'') = Inl e)))))"
  shows "\<exists>effs. load_model_try ext g = (g, effs, Some e)"
  using assms by (auto simp: load_model_try_def Let_def)

lemma load_model_try_constructed:
  assumes "print_stdout ext (start_line ext) = None"
    and "cuda_is_available ext = Inr available"
    and "print_stdout ext (attempt_line ext (if available then ''cuda'' else ''cpu'')) = None"
    and "TTS ext ''en'' (if available then ''cuda'' else ''cpu'') = Inr m"
  shows "\<exists>effs. load_model_try ext g =
           (g\<lparr>model_instance := Some m\<rparr>, effs, print_stdout ext (loaded_line ext))"
  using assms by (auto simp: load_model_try_def Let_def)

text \<open>
  What the startup routine can do to the globals: the \<open>try\<close> block never touches
  \<open>loading_error\<close> and never unsets \<open>model_instance\<close>; the \<open>except\<close> clause
  never touches \<open>model_instance\<close>, and the only string it stores starts with
  \<open>Failed to load MeloTTS model: \<close>.
\<close>

lemma load_model_try_globals:
  "load_model_try ext g = (g', effs, r) \<Longrightarrow>
     loading_error g' = loading_error g
     \<and> (model_instance g \<noteq> None \<longrightarrow> model_instance g' \<noteq> None)"
  by (auto simp: load_model_try_def Let_def split: option.splits sum.splits)

lemma load_model_except_globals:
  "load_model_except ext g effs e = (g', effs', r) \<Longrightarrow>
     model_instance g' = model_instance g
     \<and> (loading_error g' = loading_error g
        \<or> (\<exists>s. loading_error g' = Some (''Failed to load MeloTTS model: '' @ s)))"
  by (auto simp: load_model_except_def Let_def split: sum.splits)

lemma load_model_globals:
  "model_instance (fst (load_model ext g)) = model_instance (fst (load_model_try ext g))
   \<and> (loading_error (fst (load_model ext g)) = loading_error g
      \<or> (\<exists>s. loading_error (fst (load_model ext g))
               = Some (''Failed to load MeloTTS model: '' @ s)))"
proof -
  obtain g1 effs r where t: "load_model_try ext g = (g1, effs, r)"
    by (cases "load_model_try ext g") auto
  have l: "loading_error g1 = loading_error g"
    using load_model_try_globals [OF t] by simp
  show ?thesis
  proof (cases r)
    case None
    with t l show ?thesis by (simp add: load_model_def)
  next
    case (Some e)
    show ?thesis
    proof (cases "is_Exception e")
      case False
      with t l Some show ?thesis by (simp add: load_model_def)
    next
      case True
      obtain g2 effs2 r2 where x: "load_model_except ext g1 effs e = (g2, effs2, r2)"
        by (cases "load_model_except ext g1 effs e") auto
      from load_model_except_globals [OF x] t l Some True x show ?thesis
        by (auto simp: load_model_def)
    qed
  qed
qed

text \<open>
  So a message the startup routine stored is never empty, and for the handlers' test
  \<open>if loading_error:\<close> a message that is set is a message that is true.
\<close>

lemma load_model_error_nonempty:
  "loading_error (fst (load_model ext g)) = Some s \<Longrightarrow> s \<noteq> [] \<or> loading_error g = Some s"
  using load_model_globals [of ext g] by auto

text \<open>
  Past its three guards, the synthesis handler is its \<open>try\<close> block followed by the
  \<open>except\<close> clause.
\<close>

lemma generate_speech_ready:
  "\<not> truthy (loading_error g) \<Longrightarrow> model_instance g = Some m \<Longrightarrow> text_field request \<noteq> [] \<Longrightarrow>
     generate_speech ext g request =
       (case generate_speech_try ext m request of
          (effs, Inr response) \<Rightarrow> (g, effs, response)
        | (effs, Inl e) \<Rightarrow>
            if is_Exception e then
              (case generate_speech_except ext e of (effs', out) \<Rightarrow> (g, effs @ effs', out))
            else (g, effs, Propagate e))"
  by (simp add: generate_speech_def)

text \<open>
  The \<open>try\<close> block of the synthesis handler: how it is left when the synthesis
  call or the encoding step raises, and what it returns when every step succeeds.
\<close>

lemma generate_speech_try_raises:
  assumes "print_stdout ext (received_line ext request) = None"
    and "synthesize ext m (text_field request) (voice_name request) = Inl e
         \<or> (synthesize ext m (text_field request) (voice_name request) = Inr audio
            \<and> (sampling_rate ext m = Inl e
               \<or> (sampling_rate ext m = Inr rate
                  \<and> sf_write ext audio rate ''WAV'' = Inl e)))"
  shows "\<exists>effs. generate_speech_try ext m request = (effs, Inl e)"
  using assms by (auto simp: generate_speech_try_def Let_def)

lemma generate_speech_try_returns:
  assumes "print_stdout ext (received_line ext request) = None"
    and "synthesize ext m (text_field request) (voice_name request) = Inr audio"
    and "sampling_rate ext m = Inr rate"
    and "sf_write ext audio rate ''WAV'' = Inr wav"
    and "print_stdout ext (success_line ext) = None"
  shows "generate_speech_try ext m request =
           ([Print (received_line ext request),
             Call_synthesize m (text_field request) (voice_name request),
             Call_sf_write audio rate ''WAV'',
             Print (success_line ext)],
            Inr (Return_Response wav ''audio/wav''))"
  using assms by (simp add: generate_speech_try_def Let_def)

text \<open>
  The synthesis function is called at most once, in the \<open>try\<close> block, after the
  first log line has been printed; the \<open>except\<close> clause does not call it.
\<close>

lemma generate_speech_try_calls:
  "synthesize_calls (fst (generate_speech_try ext m request)) =
     (case print_stdout ext (received_line ext request) of
        None \<Rightarrow> [Call_synthesize m (text_field request) (voice_name request)]
      | Some e \<Rightarrow> [])"
  by (simp add: generate_speech_try_def synthesize_calls_def Let_def
           split: option.splits sum.splits)

lemma generate_speech_except_calls:
  "synthesize_calls (fst (generate_speech_except ext e)) = []"
  by (simp add: generate_speech_except_def synthesize_calls_def
           split: option.splits sum.splits)

lemma synthesize_calls_append:
  "synthesize_calls (xs @ ys) = synthesize_calls xs @ synthesize_calls ys"
  by (simp add: synthesize_calls_def)

lemma generate_speech_ready_calls:
  assumes "\<not> truthy (loading_error g)" and "model_instance g = Some m"
    and "text_field request \<noteq> []"
  shows "synthesize_calls (fst (snd (generate_speech ext g request))) =
           (case print_stdout ext (received_line ext request) of
              None \<Rightarrow> [Call_synthesize m (text_field request) (voice_name request)]
            | Some e \<Rightarrow> [])"
proof -
  obtain effs r where t: "generate_speech_try ext m request = (effs, r)"
    by (cases "generate_speech_try ext m request") auto
  have c: "synthesize_calls effs =
             (case print_stdout ext (received_line ext request) of
                None \<Rightarrow> [Call_synthesize m (text_field request) (voice_name request)]
              | Some e \<Rightarrow> [])"
    using generate_speech_try_calls [of ext m request] t by simp
  show ?thesis
  proof (cases r)
    case (Inr response)
    with assms t c show ?thesis by (simp add: generate_speech_ready)
  next
    case (Inl e)
    obtain effs' out where x: "generate_speech_except ext e = (effs', out)"
      by (cases "generate_speech_except ext e") auto
    have "synthesize_calls effs' = []"
      using generate_speech_except_calls [of ext e] x by simp
    with assms t c Inl x show ?thesis
      by (simp add: generate_speech_ready synthesize_calls_append)
  qed
qed

text \<open>
  The only statement of the handler that raises \<open>HTTPException\<close> 400 is the text
  guard.
\<close>

lemma generate_speech_status_400:
  "status_code (snd (snd (generate_speech ext g request))) = Some 400 \<Longrightarrow>
     text_field request = []"
  by (auto simp: generate_speech_def generate_speech_try_def generate_speech_except_def Let_def
           split: option.splits sum.splits if_splits)

subsection \<open>C1: the order of the guards of the synthesis handler\<close>

text \<open>
  Claim C1. The synthesis handler checks its preconditions in a fixed order and the first
  failing one ends the request: a loading error that is set gives 503 with the captured
  message, whatever the model handle and the text are; otherwise a missing model handle
  gives 503 with the still-loading message, whatever the text is; otherwise an empty text
  gives 400. None of the three performs any effect, and the external synthesis function is
  called only when all three checks pass; it is called then, once the first log line of
  the \<open>try\<close> block has been printed.
\<close>

theorem generate_speech_guard_order:
  "(loading_error g = Some msg \<and> msg \<noteq> [] \<longrightarrow>
      generate_speech ext g request =
        (g, [], Raise_HTTPException 503 (''Service Unavailable: Model failed to load: '' @ msg)))
   \<and> (\<not> truthy (loading_error g) \<and> model_instance g = None \<longrightarrow>
      generate_speech ext g request =
        (g, [], Raise_HTTPException 503
           ''Service Unavailable: MeloTTS model is still loading. Please try again shortly.''))
   \<and> (\<not> truthy (loading_error g) \<and> model_instance g \<noteq> None \<and> text_field request = [] \<longrightarrow>
      generate_speech ext g request = (g, [], Raise_HTTPException 400 ''Text input is required.''))
   \<and> (synthesize_calls (fst (snd (generate_speech ext g request))) \<noteq> [] \<longrightarrow>
        \<not> truthy (loading_error g) \<and> model_instance g \<noteq> None \<and> text_field request \<noteq> [])
   \<and> (\<not> truthy (loading_error g) \<and> model_instance g \<noteq> None \<and> text_field request \<noteq> []
        \<and> print_stdout ext (received_line ext request) = None \<longrightarrow>
        synthesize_calls (fst (snd (generate_speech ext g request))) \<noteq> [])"
proof -
  have guards:
    "(loading_error g = Some msg \<and> msg \<noteq> [] \<longrightarrow>
        generate_speech ext g request =
          (g, [], Raise_HTTPException 503 (''Service Unavailable: Model failed to load: '' @ msg)))
     \<and> (\<not> truthy (loading_error g) \<and> model_instance g = None \<longrightarrow>
        generate_speech ext g request =
          (g, [], Raise_HTTPException 503
             ''Service Unavailable: MeloTTS model is still loading. Please try again shortly.''))
     \<and> (\<not> truthy (loading_error g) \<and> model_instance g \<noteq> None \<and> text_field request = [] \<longrightarrow>
        generate_speech ext g request =
          (g, [], Raise_HTTPException 400 ''Text input is required.''))"
    by (auto simp: generate_speech_def)
  have only_when:
    "synthesize_calls (fst (snd (generate_speech ext g request))) \<noteq> [] \<longrightarrow>
       \<not> truthy (loading_error g) \<and> model_instance g \<noteq> None \<and> text_field request \<noteq> []"
    by (auto simp: generate_speech_def synthesize_calls_def split: option.splits)
  have "when":
    "\<not> truthy (loading_error g) \<and> model_instance g \<noteq> None \<and> text_field request \<noteq> []
       \<and> print_stdout ext (received_line ext request) = None \<longrightarrow>
     synthesize_calls (fst (snd (generate_speech ext g request))) \<noteq> []"
    by (auto simp: generate_speech_ready_calls)
  from guards only_when "when" show ?thesis by blast
qed

text \<open>
  C1 at concrete inputs: a failed load with a handle present and an empty text, the
  initial globals with an empty text, a ready service with an empty text, and a ready
  service with the text \<open>Hello world\<close>, where the synthesis function is called and the
  three checks have passed.
\<close>

theorem generate_speech_guard_order_witness:
  "generate_speech example_externals (example_failed\<lparr>model_instance := Some 7\<rparr>) empty_request =
     (example_failed\<lparr>model_instance := Some 7\<rparr>, [],
      Raise_HTTPException 503
        (''Service Unavailable: Model failed to load: ''
         @ ''Failed to load MeloTTS model: out of memory''))
   \<and> generate_speech example_externals initial_globals empty_request =
     (initial_globals, [],
      Raise_HTTPException 503
        ''Service Unavailable: MeloTTS model is still loading. Please try again shortly.'')
   \<and> generate_speech example_externals example_ready empty_request =
     (example_ready, [], Raise_HTTPException 400 ''Text input is required.'')
   \<and> synthesize_calls (fst (snd (generate_speech example_externals example_ready hello_request)))
       \<noteq> []
   \<and> \<not> truthy (loading_error example_ready)
   \<and> model_instance example_ready \<noteq> None
   \<and> text_field hello_request \<noteq> []"
proof -
  have p: "print_stdout example_externals (received_line example_externals hello_request) = None"
    by (simp add: example_externals_def received_line_def log_tag_def hello_request_def
          strict_stdout_def)
  show ?thesis
    using generate_speech_guard_order
            [where g = "example_failed\<lparr>model_instance := Some 7\<rparr>"
               and msg = "''Failed to load MeloTTS model: out of memory''"
               and ext = example_externals and request = empty_request]
          generate_speech_guard_order
            [where g = "initial_globals :: nat globals" and ext = example_externals
               and request = empty_request]
          generate_speech_guard_order
            [where g = example_ready and ext = example_externals and request = empty_request]
          generate_speech_guard_order
            [where g = example_ready and ext = example_externals and request = hello_request]
          p
    by (simp add: example_failed_def initial_globals_def example_ready_def empty_request_def
          hello_request_def)
qed

subsection \<open>C2: an empty text and the service state\<close>

text \<open>
  Claim C2 says that an empty text is answered with 400 in every service state. Before
  the model is loaded the handler stops at its second guard: the answer to an empty text
  is 503.
\<close>

theorem empty_text_not_always_400:
  "status_code (snd (snd (generate_speech example_externals initial_globals empty_request)))
     = Some 503
   \<and> text_field empty_request = []"
  by (simp add: generate_speech_def initial_globals_def empty_request_def)

text \<open>
  Claim C2, amended. A request with an empty text is answered with 400 when the service
  is ready (no loading error, a model handle present) and with 503 in every other state,
  since both state guards come before the text guard.
\<close>

theorem empty_text_status:
  "text_field request = [] \<Longrightarrow>
     status_code (snd (snd (generate_speech ext g request)))
       = Some (if \<not> truthy (loading_error g) \<and> model_instance g \<noteq> None then 400 else 503)"
  by (auto simp: generate_speech_def split: option.splits)

text \<open>
  The amended C2 at a ready service (400) and after a failed load (503).
\<close>

theorem empty_text_status_witness:
  "status_code (snd (snd (generate_speech example_externals example_ready empty_request)))
     = Some 400
   \<and> status_code (snd (snd (generate_speech example_externals example_failed empty_request)))
     = Some 503"
  using empty_text_status [where request = empty_request and ext = example_externals
                             and g = example_ready]
        empty_text_status [where request = empty_request and ext = example_externals
                             and g = example_failed]
  by (simp add: empty_request_def example_ready_def example_failed_def)

subsection \<open>C3: the payload of the status handler\<close>

text \<open>
  Claim C3. The payload of GET / is a function of the globals alone: a loading error
  \<open>msg\<close> that is set gives status \<open>error\<close> with a message that ends with
  \<open>msg\<close>; otherwise a missing model handle gives status \<open>loading\<close>; otherwise
  the status is \<open>ready\<close>.
\<close>

theorem read_root_payload:
  "(loading_error g = Some msg \<and> msg \<noteq> [] \<longrightarrow>
      read_root g =
        (g, Return_dict [(''status'', ''error''),
                         (''message'', ''API is running but model failed to load: '' @ msg)]))
   \<and> (\<not> truthy (loading_error g) \<and> model_instance g = None \<longrightarrow>
      read_root g =
        (g, Return_dict [(''status'', ''loading''),
                         (''message'', ''MeloTTS model is still loading or failed to load. Please try again shortly.'')]))
   \<and> (\<not> truthy (loading_error g) \<and> model_instance g \<noteq> None \<longrightarrow>
      read_root g =
        (g, Return_dict [(''status'', ''ready''),
                         (''message'', ''MeloTTS API is running and model is loaded.'')]))"
  by (simp add: read_root_def)

text \<open>
  C3 after a failed load, at the initial globals and at a ready service.
\<close>

theorem read_root_payload_witness:
  "read_root example_failed =
     (example_failed,
      Return_dict [(''status'', ''error''),
                   (''message'', ''API is running but model failed to load: ''
                                 @ ''Failed to load MeloTTS model: out of memory'')])
   \<and> read_root (initial_globals :: nat globals) =
     (initial_globals,
      Return_dict [(''status'', ''loading''),
                   (''message'', ''MeloTTS model is still loading or failed to load. Please try again shortly.'')])
   \<and> read_root example_ready =
     (example_ready,
      Return_dict [(''status'', ''ready''),
                   (''message'', ''MeloTTS API is running and model is loaded.'')])"
  using read_root_payload [where g = example_failed
                             and msg = "''Failed to load MeloTTS model: out of memory''"]
        read_root_payload [where g = "initial_globals :: nat globals"]
        read_root_payload [where g = example_ready]
  by (simp add: example_failed_def initial_globals_def example_ready_def)

subsection \<open>C4: exceptions of synthesis and encoding\<close>

text \<open>
  Claim C4 says that every exception raised by the synthesis call or the encoding step
  is caught and mapped to 500. The handler's clause is \<open>except Exception\<close>: a
  \<open>SystemExit\<close> raised by the synthesis call is not an instance of \<open>Exception\<close>
  and leaves the handler, which gives no response at all.
\<close>

theorem system_exit_escapes_generate_speech:
  "snd (snd (generate_speech (synthesize_raising system_exit) example_ready hello_request))
     = Propagate system_exit
   \<and> status_code (Propagate system_exit) = None"
  by (simp add: generate_speech_def generate_speech_try_def synthesize_raising_def
        example_externals_def example_ready_def hello_request_def system_exit_def
        received_line_def log_tag_def strict_stdout_def)

text \<open>
  Claim C4, amended. Let the service be ready, the text not empty, and let the synthesis
  call or the encoding step (the read of the sampling rate, then \<open>sf.write\<close>) raise the
  exception \<open>e\<close>.
  \<^item> If \<open>e\<close> is not an instance of \<open>Exception\<close>, it leaves the handler.
  \<^item> If \<open>e\<close> is an instance of \<open>Exception\<close>, its text \<open>s\<close> can be formatted, and the
    error line and the traceback are written without error, the handler has logged \<open>e\<close>
    (the error line holding \<open>s\<close>, then the traceback) and raises \<open>HTTPException\<close> 500
    whose detail holds \<open>s\<close>.
  \<^item> If \<open>e\<close> is an instance of \<open>Exception\<close> and formatting it, printing the error line
    or printing the traceback raises \<open>e'\<close>, then \<open>e'\<close> leaves the handler.
  The globals are unchanged in every case.
\<close>

theorem generate_speech_exception_mapping:
  assumes "\<not> truthy (loading_error g)" and "model_instance g = Some m"
    and "text_field request \<noteq> []"
    and "print_stdout ext (received_line ext request) = None"
    and "synthesize ext m (text_field request) (voice_name request) = Inl e
         \<or> (synthesize ext m (text_field request) (voice_name request) = Inr audio
            \<and> (sampling_rate ext m = Inl e
               \<or> (sampling_rate ext m = Inr rate
                  \<and> sf_write ext audio rate ''WAV'' = Inl e)))"
  shows "(\<not> is_Exception e \<longrightarrow>
            (\<exists>effs. generate_speech ext g request = (g, effs, Propagate e)))
         \<and> (is_Exception e \<and> exc_str e = Inr s
              \<and> print_stdout ext (error_line ext s) = None \<and> print_exc ext e = None \<longrightarrow>
            (\<exists>effs. generate_speech ext g request =
               (g, effs @ [Print (error_line ext s), Print_exc e],
                Raise_HTTPException 500
                  (''TTS generation failed: '' @ s @ ''. Check server logs for details.''))))
         \<and> (is_Exception e \<and> exc_str e = Inl e' \<longrightarrow>
            (\<exists>effs. generate_speech ext g request = (g, effs, Propagate e')))
         \<and> (is_Exception e \<and> exc_str e = Inr s
              \<and> print_stdout ext (error_line ext s) = Some e' \<longrightarrow>
            (\<exists>effs. generate_speech ext g request = (g, effs, Propagate e')))
         \<and> (is_Exception e \<and> exc_str e = Inr s
              \<and> print_stdout ext (error_line ext s) = None \<and> print_exc ext e = Some e' \<longrightarrow>
            (\<exists>effs. generate_speech ext g request = (g, effs, Propagate e')))"
proof -
  from generate_speech_try_raises [OF assms(4,5)]
  obtain effs where t: "generate_speech_try ext m request = (effs, Inl e)" ..
  have gs: "generate_speech ext g request =
              (if is_Exception e then
                 (case generate_speech_except ext e of (effs', out) \<Rightarrow> (g, effs @ effs', out))
               else (g, effs, Propagate e))"
    using assms(1-3) t by (simp add: generate_speech_ready)
  have c1: "\<not> is_Exception e \<longrightarrow>
              (\<exists>effs. generate_speech ext g request = (g, effs, Propagate e))"
    using gs by simp
  have c2: "is_Exception e \<and> exc_str e = Inr s
              \<and> print_stdout ext (error_line ext s) = None \<and> print_exc ext e = None \<longrightarrow>
            (\<exists>effs. generate_speech ext g request =
               (g, effs @ [Print (error_line ext s), Print_exc e],
                Raise_HTTPException 500
                  (''TTS generation failed: '' @ s @ ''. Check server logs for details.'')))"
    using gs by (simp add: generate_speech_except_def)
  have c3: "is_Exception e \<and> exc_str e = Inl e' \<longrightarrow>
            (\<exists>effs. generate_speech ext g request = (g, effs, Propagate e'))"
    using gs by (simp add: generate_speech_except_def)
  have c4: "is_Exception e \<and> exc_str e = Inr s
              \<and> print_stdout ext (error_line ext s) = Some e' \<longrightarrow>
            (\<exists>effs. generate_speech ext g request = (g, effs, Propagate e'))"
    using gs by (simp add: generate_speech_except_def)
  have c5: "is_Exception e \<and> exc_str e = Inr s
              \<and> print_stdout ext (error_line ext s) = None \<and> print_exc ext e = Some e' \<longrightarrow>
            (\<exists>effs. generate_speech ext g request = (g, effs, Propagate e'))"
    using gs by (simp add: generate_speech_except_def)
  from c1 c2 c3 c4 c5 show ?thesis by blast
qed

text \<open>
  The amended C4 at a ready service and the request \<open>Hello world\<close>: a \<open>SystemExit\<close>
  raised by the synthesis call leaves the handler; a \<open>RuntimeError\<close> raised by the
  synthesis call, and one raised by the encoder, are logged and mapped to 500; an
  exception that cannot be formatted, one whose error line cannot be printed, and a
  traceback that cannot be written each end with the new exception leaving the handler.
\<close>

theorem generate_speech_exception_mapping_witness:
  "(\<exists>effs. generate_speech (synthesize_raising system_exit) example_ready hello_request =
      (example_ready, effs, Propagate system_exit))
   \<and> (\<exists>effs. generate_speech (synthesize_raising runtime_error) example_ready hello_request =
      (example_ready,
       effs @ [Print ''[local] ERROR during TTS generation: out of memory'',
               Print_exc runtime_error],
       Raise_HTTPException 500
         ''TTS generation failed: out of memory. Check server logs for details.''))
   \<and> (\<exists>effs. generate_speech (encoder_raising runtime_error) example_ready hello_request =
      (example_ready,
       effs @ [Print ''[local] ERROR during TTS generation: out of memory'',
               Print_exc runtime_error],
       Raise_HTTPException 500
         ''TTS generation failed: out of memory. Check server logs for details.''))
   \<and> (\<exists>effs. generate_speech (synthesize_raising unformattable_error) example_ready
              hello_request =
      (example_ready, effs, Propagate (PyException True (Inr ''__str__ returned non-string''))))
   \<and> (\<exists>effs. generate_speech (synthesize_raising surrogate_error) example_ready hello_request =
      (example_ready, effs, Propagate unicode_encode_error))
   \<and> (\<exists>effs. generate_speech (traceback_raising broken_pipe_error) example_ready hello_request =
      (example_ready, effs, Propagate broken_pipe_error))"
proof -
  note fixtures = synthesize_raising_def encoder_raising_def traceback_raising_def
    example_externals_def received_line_def error_line_def log_tag_def strict_stdout_def
    hello_request_def example_ready_def
  have a: "\<not> truthy (loading_error example_ready)"
    and b: "model_instance example_ready = Some 7"
    and c: "text_field hello_request \<noteq> []"
    by (simp_all add: fixtures)
  have p: "print_stdout (synthesize_raising x) (received_line (synthesize_raising x) hello_request)
             = None"
    "print_stdout (encoder_raising x) (received_line (encoder_raising x) hello_request) = None"
    "print_stdout (traceback_raising x) (received_line (traceback_raising x) hello_request)
       = None" for x
    by (simp_all add: fixtures)
  have r: "synthesize (synthesize_raising x) 7 (text_field hello_request)
             (voice_name hello_request) = Inl x
           \<or> (synthesize (synthesize_raising x) 7 (text_field hello_request)
                 (voice_name hello_request) = Inr []
              \<and> (sampling_rate (synthesize_raising x) 7 = Inl x
                 \<or> (sampling_rate (synthesize_raising x) 7 = Inr 0
                    \<and> sf_write (synthesize_raising x) [] 0 ''WAV'' = Inl x)))" for x
    by (simp add: fixtures)
  have rt: "synthesize (traceback_raising x) 7 (text_field hello_request)
              (voice_name hello_request) = Inl runtime_error
            \<or> (synthesize (traceback_raising x) 7 (text_field hello_request)
                  (voice_name hello_request) = Inr []
               \<and> (sampling_rate (traceback_raising x) 7 = Inl runtime_error
                  \<or> (sampling_rate (traceback_raising x) 7 = Inr 0
                     \<and> sf_write (traceback_raising x) [] 0 ''WAV'' = Inl runtime_error)))" for x
    by (simp add: fixtures)
  have re: "synthesize (encoder_raising x) 7 (text_field hello_request)
              (voice_name hello_request) = Inl x
            \<or> (synthesize (encoder_raising x) 7 (text_field hello_request)
                  (voice_name hello_request)
                  = Inr (map (\<lambda>c. int (of_char c)) (text_field hello_request))
               \<and> (sampling_rate (encoder_raising x) 7 = Inl x
                  \<or> (sampling_rate (encoder_raising x) 7 = Inr 44100
                     \<and> sf_write (encoder_raising x)
                          (map (\<lambda>c. int (of_char c)) (text_field hello_request)) 44100 ''WAV''
                        = Inl x)))" for x
    by (simp add: fixtures)
  show ?thesis
    using generate_speech_exception_mapping [OF a b c p(1) r, of system_exit]
          generate_speech_exception_mapping
            [OF a b c p(1) r, of runtime_error "''out of memory''"]
          generate_speech_exception_mapping
            [OF a b c p(2) re, of runtime_error "''out of memory''"]
          generate_speech_exception_mapping
            [OF a b c p(1) r, of unformattable_error _
               "PyException True (Inr ''__str__ returned non-string'')"]
          generate_speech_exception_mapping
            [OF a b c p(1) r, of surrogate_error "[CHR 0xED, CHR 0xA0, CHR 0x80]"
               unicode_encode_error]
          generate_speech_exception_mapping
            [OF a b c p(3) rt, of broken_pipe_error "''out of memory''" broken_pipe_error]
    by (simp add: fixtures system_exit_def runtime_error_def unformattable_error_def
          surrogate_error_def)
qed

subsection \<open>C5: the startup routine\<close>

text \<open>
  Claim C5 says that the startup routine never raises past its own boundary. Its clause
  is \<open>except Exception\<close> too: a \<open>SystemExit\<close> raised by the model constructor
  leaves the routine, and the globals stay as they were, with no loading error recorded.
\<close>

theorem system_exit_escapes_load_model:
  "load_model (constructor_raising system_exit) initial_globals
     = (initial_globals,
        [Print ''[local] Starting model loading...'', Call_cuda_is_available,
         Print ''[local] Attempting to load MeloTTS model on device: cpu'',
         Call_TTS ''en'' ''cpu''],
        Some system_exit)"
  by (simp add: load_model_def load_model_try_def Let_def constructor_raising_def
        example_externals_def start_line_def attempt_line_def log_tag_def strict_stdout_def
        system_exit_def)

text \<open>
  Claim C5, amended.
  \<^item> When the device probe and the model constructor succeed and the three log lines are
    printed, the routine stores the handle in \<open>model_instance\<close> and returns normally.
  \<^item> Let a step of the \<open>try\<close> block up to the model constructor (a log print, the
    device probe, the constructor) raise the exception \<open>e\<close>. If \<open>e\<close> is not an
    instance of \<open>Exception\<close>, it leaves the routine and the globals are unchanged. If
    \<open>e\<close> is an instance of \<open>Exception\<close> and its text \<open>s\<close> can be formatted, the
    routine stores \<open>Failed to load MeloTTS model: \<close> followed by \<open>s\<close> in
    \<open>loading_error\<close>; it then returns normally when the error line is printed, and
    otherwise the exception \<open>e'\<close> of that print leaves the routine. If formatting
    \<open>e\<close> raises \<open>e'\<close>, then \<open>e'\<close> leaves the routine and the globals are unchanged.
\<close>

theorem load_model_outcomes:
  "(print_stdout ext (start_line ext) = None
      \<and> cuda_is_available ext = Inr available
      \<and> print_stdout ext (attempt_line ext (if available then ''cuda'' else ''cpu'')) = None
      \<and> TTS ext ''en'' (if available then ''cuda'' else ''cpu'') = Inr m
      \<and> print_stdout ext (loaded_line ext) = None \<longrightarrow>
      (\<exists>effs. load_model ext g = (g\<lparr>model_instance := Some m\<rparr>, effs, None)))
   \<and> (print_stdout ext (start_line ext) = Some e
       \<or> (print_stdout ext (start_line ext) = None
          \<and> (cuda_is_available ext = Inl e
             \<or> (cuda_is_available ext = Inr available
                \<and> (print_stdout ext
                      (attempt_line ext (if available then ''cuda'' else ''cpu'')) = Some e
                   \<or> (print_stdout ext
                         (attempt_line ext (if available then ''cuda'' else ''cpu'')) = None
                      \<and> TTS ext ''en'' (if available then ''cuda'' else ''cpu'') = Inl e)))))
       \<longrightarrow>
         (\<not> is_Exception e \<longrightarrow> (\<exists>effs. load_model ext g = (g, effs, Some e)))
         \<and> (is_Exception e \<and> exc_str e = Inr s
              \<and> print_stdout ext (load_error_line ext (''Failed to load MeloTTS model: '' @ s))
                  = None \<longrightarrow>
            (\<exists>effs. load_model ext g =
               (g\<lparr>loading_error := Some (''Failed to load MeloTTS model: '' @ s)\<rparr>,
                effs, None)))
         \<and> (is_Exception e \<and> exc_str e = Inr s
              \<and> print_stdout ext (load_error_line ext (''Failed to load MeloTTS model: '' @ s))
                  = Some e' \<longrightarrow>
            (\<exists>effs. load_model ext g =
               (g\<lparr>loading_error := Some (''Failed to load MeloTTS model: '' @ s)\<rparr>,
                effs, Some e')))
         \<and> (is_Exception e \<and> exc_str e = Inl e' \<longrightarrow>
            (\<exists>effs. load_model ext g = (g, effs, Some e'))))"
proof (intro conjI impI)
  assume "print_stdout ext (start_line ext) = None
      \<and> cuda_is_available ext = Inr available
      \<and> print_stdout ext (attempt_line ext (if available then ''cuda'' else ''cpu'')) = None
      \<and> TTS ext ''en'' (if available then ''cuda'' else ''cpu'') = Inr m
      \<and> print_stdout ext (loaded_line ext) = None"
  then obtain effs where
    "load_model_try ext g = (g\<lparr>model_instance := Some m\<rparr>, effs, None)"
    using load_model_try_constructed [of ext available m g] by auto
  then show "\<exists>effs. load_model ext g = (g\<lparr>model_instance := Some m\<rparr>, effs, None)"
    by (simp add: load_model_def)
next
  assume "print_stdout ext (start_line ext) = Some e
       \<or> (print_stdout ext (start_line ext) = None
          \<and> (cuda_is_available ext = Inl e
             \<or> (cuda_is_available ext = Inr available
                \<and> (print_stdout ext
                      (attempt_line ext (if available then ''cuda'' else ''cpu'')) = Some e
                   \<or> (print_stdout ext
                         (attempt_line ext (if available then ''cuda'' else ''cpu'')) = None
                      \<and> TTS ext ''en'' (if available then ''cuda'' else ''cpu'') = Inl e)))))"
  from load_model_try_raises [OF this]
  obtain effs where t: "load_model_try ext g = (g, effs, Some e)" ..
  {
    assume "\<not> is_Exception e"
    with t show "\<exists>effs. load_model ext g = (g, effs, Some e)"
      by (simp add: load_model_def)
  next
    assume "is_Exception e \<and> exc_str e = Inr s
              \<and> print_stdout ext (load_error_line ext (''Failed to load MeloTTS model: '' @ s))
                  = None"
    with t show "\<exists>effs. load_model ext g =
               (g\<lparr>loading_error := Some (''Failed to load MeloTTS model: '' @ s)\<rparr>,
                effs, None)"
      by (simp add: load_model_def load_model_except_def Let_def)
  next
    assume "is_Exception e \<and> exc_str e = Inr s
              \<and> print_stdout ext (load_error_line ext (''Failed to load MeloTTS model: '' @ s))
                  = Some e'"
    with t show "\<exists>effs. load_model ext g =
               (g\<lparr>loading_error := Some (''Failed to load MeloTTS model: '' @ s)\<rparr>,
                effs, Some e')"
      by (simp add: load_model_def load_model_except_def Let_def)
  next
    assume "is_Exception e \<and> exc_str e = Inl e'"
    with t show "\<exists>effs. load_model ext g = (g, effs, Some e')"
      by (simp add: load_model_def load_model_except_def)
  }
qed

text \<open>
  The amended C5 from the initial globals: a successful load ends in the ready state; a
  \<open>SystemExit\<close> of the constructor leaves the routine; a \<open>RuntimeError\<close> of the
  constructor ends in the failed state; an exception whose error line cannot be printed
  is stored, and the exception of the print leaves the routine; an exception that cannot
  be formatted leaves the globals as they were.
\<close>

theorem load_model_outcomes_witness:
  "(\<exists>effs. load_model example_externals initial_globals =
      (\<lparr>model_instance = Some 7, loading_error = None\<rparr>, effs, None))
   \<and> (\<exists>effs. load_model (constructor_raising system_exit) initial_globals =
      (\<lparr>model_instance = None, loading_error = None\<rparr>, effs, Some system_exit))
   \<and> (\<exists>effs. load_model (constructor_raising runtime_error) initial_globals =
      (\<lparr>model_instance = None,
        loading_error = Some ''Failed to load MeloTTS model: out of memory''\<rparr>, effs, None))
   \<and> (\<exists>effs. load_model (constructor_raising surrogate_error) initial_globals =
      (\<lparr>model_instance = None,
        loading_error = Some (''Failed to load MeloTTS model: ''
                              @ [CHR 0xED, CHR 0xA0, CHR 0x80])\<rparr>,
       effs, Some unicode_encode_error))
   \<and> (\<exists>effs. load_model (constructor_raising unformattable_error) initial_globals =
      (\<lparr>model_instance = None, loading_error = None\<rparr>, effs,
       Some (PyException True (Inr ''__str__ returned non-string''))))"
  using load_model_outcomes
          [where ext = example_externals and available = False and m = 7
             and g = "initial_globals"]
        load_model_outcomes
          [where ext = "constructor_raising system_exit" and available = False
             and e = system_exit and g = "initial_globals"]
        load_model_outcomes
          [where ext = "constructor_raising runtime_error" and available = False
             and e = runtime_error and s = "''out of memory''" and g = "initial_globals"]
        load_model_outcomes
          [where ext = "constructor_raising surrogate_error" and available = False
             and e = surrogate_error and s = "[CHR 0xED, CHR 0xA0, CHR 0x80]"
             and e' = unicode_encode_error and g = "initial_globals"]
        load_model_outcomes
          [where ext = "constructor_raising unformattable_error" and available = False
             and e = unformattable_error
             and e' = "PyException True (Inr ''__str__ returned non-string'')"
             and g = "initial_globals"]
  by (simp add: constructor_raising_def example_externals_def initial_globals_def
        start_line_def attempt_line_def loaded_line_def load_error_line_def log_tag_def
        strict_stdout_def system_exit_def runtime_error_def surrogate_error_def
        unformattable_error_def)

subsection \<open>C6: a successful synthesis\<close>

text \<open>
  Claim C6 says that a ready service answers every text that is not empty with 200 when
  the synthesis and encoding calls succeed. The first statement of the \<open>try\<close> block
  prints the text: for a text the standard output cannot encode (a lone surrogate) the
  print raises, the \<open>except\<close> clause answers 500, and no collaborator is called, although
  synthesis and encoding succeed on this text.
\<close>

theorem unprintable_text_not_200:
  "status_code (snd (snd (generate_speech example_externals example_ready surrogate_request)))
     = Some 500
   \<and> fst (snd (generate_speech example_externals example_ready surrogate_request))
     = [Print (received_line example_externals surrogate_request),
        Print ''[local] ERROR during TTS generation: surrogates not allowed'',
        Print_exc unicode_encode_error]
   \<and> \<not> truthy (loading_error example_ready)
   \<and> model_instance example_ready = Some 7
   \<and> text_field surrogate_request \<noteq> []
   \<and> synthesize example_externals 7 (text_field surrogate_request)
         (voice_name surrogate_request) = Inr [237, 160, 128]
   \<and> sampling_rate example_externals 7 = Inr 44100
   \<and> sf_write example_externals [237, 160, 128] 44100 ''WAV''
       = Inr [0x52, 0x49, 0x46, 0x46, 237, 160, 128]"
  by (simp add: generate_speech_def generate_speech_try_def generate_speech_except_def
        example_externals_def example_ready_def surrogate_request_def received_line_def
        error_line_def log_tag_def strict_stdout_def unicode_encode_error_def)

text \<open>
  Claim C6, amended. With a ready service, a text that is not empty, the two log lines of
  the \<open>try\<close> block printed without error, and the synthesis call, the read of the
  sampling rate and the encoding succeeding, the handler returns a \<open>Response\<close> with
  status 200 and media type \<open>audio/wav\<close> whose content is what the encoder produced from
  the samples that the synthesis call returned for the request's text and voice, at the
  rate read from the model handle (\<open>model_instance.hps.data.sampling_rate\<close>) and in the
  format \<open>WAV\<close>.
\<close>

theorem generate_speech_success:
  assumes "\<not> truthy (loading_error g)" and "model_instance g = Some m"
    and "text_field request \<noteq> []"
    and "print_stdout ext (received_line ext request) = None"
    and "synthesize ext m (text_field request) (voice_name request) = Inr samples"
    and "sampling_rate ext m = Inr rate"
    and "sf_write ext samples rate ''WAV'' = Inr wav"
    and "print_stdout ext (success_line ext) = None"
  shows "generate_speech ext g request =
           (g,
            [Print (received_line ext request),
             Call_synthesize m (text_field request) (voice_name request),
             Call_sf_write samples rate ''WAV'',
             Print (success_line ext)],
            Return_Response wav ''audio/wav'')
         \<and> status_code (snd (snd (generate_speech ext g request))) = Some 200
         \<and> content_type (snd (snd (generate_speech ext g request))) = Some ''audio/wav''"
  using assms(1-3) generate_speech_try_returns [OF assms(4-8)]
  by (simp add: generate_speech_ready)

text \<open>
  The amended C6 for the request \<open>Hello world\<close> with the voice \<open>EN-US\<close>: the content
  is the encoder's header followed by the samples of this text.
\<close>

theorem generate_speech_success_witness:
  "generate_speech example_externals example_ready hello_request =
     (example_ready,
      [Print (received_line example_externals hello_request),
       Call_synthesize 7 ''Hello world'' ''EN-US'',
       Call_sf_write [72, 101, 108, 108, 111, 32, 119, 111, 114, 108, 100] 44100 ''WAV'',
       Print ''[local] Successfully generated audio.''],
      Return_Response
        [0x52, 0x49, 0x46, 0x46, 72, 101, 108, 108, 111, 32, 119, 111, 114, 108, 100]
        ''audio/wav'')
   \<and> status_code (snd (snd (generate_speech example_externals example_ready hello_request)))
       = Some 200
   \<and> content_type (snd (snd (generate_speech example_externals example_ready hello_request)))
       = Some ''audio/wav''"
proof -
  note fixtures = example_externals_def example_ready_def hello_request_def received_line_def
    success_line_def log_tag_def strict_stdout_def
  have a: "\<not> truthy (loading_error example_ready)"
    and b: "model_instance example_ready = Some 7"
    and c: "text_field hello_request \<noteq> []"
    and p: "print_stdout example_externals (received_line example_externals hello_request)
              = None"
    and d: "synthesize example_externals 7 (text_field hello_request) (voice_name hello_request)
              = Inr [72, 101, 108, 108, 111, 32, 119, 111, 114, 108, 100]"
    and r: "sampling_rate example_externals 7 = Inr 44100"
    and e: "sf_write example_externals
              [72, 101, 108, 108, 111, 32, 119, 111, 114, 108, 100] 44100 ''WAV''
              = Inr [0x52, 0x49, 0x46, 0x46, 72, 101, 108, 108, 111, 32, 119, 111, 114, 108, 100]"
    and q: "print_stdout example_externals (success_line example_externals) = None"
    by (simp_all add: fixtures)
  show ?thesis
    using generate_speech_success [OF a b c p d r e q]
    by (simp add: hello_request_def success_line_def log_tag_def example_externals_def)
qed

subsection \<open>C7: the handlers never write the globals\<close>

text \<open>
  Claim C7. Both handlers return the globals they were given, in every execution,
  whatever the collaborators do (also when synthesis or encoding raises). The startup
  routine is the only writer, and it never reverts: a model handle that is present stays
  present, and a loading error that is set stays set.
\<close>

theorem handlers_never_write_globals:
  "fst (read_root g) = g
   \<and> fst (generate_speech ext g request) = g
   \<and> (model_instance g \<noteq> None \<longrightarrow> model_instance (fst (load_model ext g)) \<noteq> None)
   \<and> (truthy (loading_error g) \<longrightarrow> truthy (loading_error (fst (load_model ext g))))"
proof -
  have "fst (read_root g) = g"
    by (simp add: read_root_def)
  moreover have "fst (generate_speech ext g request) = g"
    by (simp add: generate_speech_def split: option.splits prod.splits sum.splits)
  moreover have "model_instance g \<noteq> None \<longrightarrow> model_instance (fst (load_model ext g)) \<noteq> None"
  proof -
    obtain g1 effs r where t: "load_model_try ext g = (g1, effs, r)"
      by (cases "load_model_try ext g") auto
    from load_model_try_globals [OF t] load_model_globals [of ext g] t
    show ?thesis by simp
  qed
  moreover have "truthy (loading_error g) \<longrightarrow> truthy (loading_error (fst (load_model ext g)))"
    using load_model_globals [of ext g] by auto
  ultimately show ?thesis by blast
qed

text \<open>
  C7 at a ready service whose synthesis call raises, and for the startup routine run on
  a ready and on a failed state.
\<close>

theorem handlers_never_write_globals_witness:
  "fst (read_root example_ready) = example_ready
   \<and> fst (generate_speech (synthesize_raising runtime_error) example_ready hello_request)
       = example_ready
   \<and> model_instance (fst (load_model (constructor_raising runtime_error) example_ready)) \<noteq> None
   \<and> truthy (loading_error (fst (load_model example_externals example_failed)))"
  using handlers_never_write_globals
          [where g = example_ready and ext = "synthesize_raising runtime_error"
             and request = hello_request]
        handlers_never_write_globals
          [where g = example_ready and ext = "constructor_raising runtime_error"
             and request = hello_request]
        handlers_never_write_globals
          [where g = example_failed and ext = example_externals and request = hello_request]
  by (simp add: example_ready_def example_failed_def)

subsection \<open>C8: the status handler never fails\<close>

text \<open>
  Claim C8. For all globals the status handler returns a dict with exactly the keys
  \<open>status\<close> and \<open>message\<close>, answered with status 200; it raises nothing and
  returns the globals unchanged.
\<close>

theorem read_root_never_fails:
  "(\<exists>st msg. read_root g = (g, Return_dict [(''status'', st), (''message'', msg)])
             \<and> (st = ''error'' \<or> st = ''loading'' \<or> st = ''ready''))
   \<and> status_code (snd (read_root g)) = Some 200"
  by (simp add: read_root_def)

subsection \<open>C9: the text guard tests for the empty string only\<close>

text \<open>
  Claim C9 says that every text that is not empty is forwarded to the external synthesis
  call. A text that the standard output cannot encode passes the text guard (the answer
  is not 400), but the print before the call raises and the synthesis function is never
  called.
\<close>

theorem unprintable_text_not_forwarded:
  "synthesize_calls (fst (snd (generate_speech example_externals example_ready
                                 surrogate_request))) = []
   \<and> status_code (snd (snd (generate_speech example_externals example_ready surrogate_request)))
       \<noteq> Some 400
   \<and> text_field surrogate_request \<noteq> []"
  by (simp add: generate_speech_def generate_speech_try_def generate_speech_except_def
        synthesize_calls_def example_externals_def example_ready_def surrogate_request_def
        received_line_def error_line_def log_tag_def strict_stdout_def unicode_encode_error_def)

text \<open>
  Claim C9, amended. The handler answers 400 only for an empty text. Where the text guard
  is reached (no loading error, a model handle present):
  \<^item> an empty text is answered with 400;
  \<^item> every other text, whitespace included, passes the guard, and once the first log line
    is printed the synthesis function is called exactly once, with the model handle and
    the request's text and voice name unchanged; what that call does at this text decides
    the result: an exception of it that is not an instance of \<open>Exception\<close> leaves the
    handler, and the samples it returns are the ones encoded into the response;
  \<^item> when the print of the first log line raises, the synthesis function is not called.
\<close>

theorem text_check_exact:
  "(status_code (snd (snd (generate_speech ext g request))) = Some 400 \<longrightarrow>
      text_field request = [])
   \<and> (\<not> truthy (loading_error g) \<and> model_instance g = Some m \<longrightarrow>
        (text_field request = [] \<longrightarrow>
           status_code (snd (snd (generate_speech ext g request))) = Some 400)
        \<and> (text_field request \<noteq> [] \<and> print_stdout ext (received_line ext request) = None \<longrightarrow>
             synthesize_calls (fst (snd (generate_speech ext g request)))
               = [Call_synthesize m (text_field request) (voice_name request)]
             \<and> (synthesize ext m (text_field request) (voice_name request) = Inl e
                  \<and> \<not> is_Exception e \<longrightarrow>
                snd (snd (generate_speech ext g request)) = Propagate e)
             \<and> (synthesize ext m (text_field request) (voice_name request) = Inr samples
                  \<and> sampling_rate ext m = Inr rate
                  \<and> sf_write ext samples rate ''WAV'' = Inr wav
                  \<and> print_stdout ext (success_line ext) = None \<longrightarrow>
                snd (snd (generate_speech ext g request)) = Return_Response wav ''audio/wav''))
        \<and> (text_field request \<noteq> [] \<and> print_stdout ext (received_line ext request) = Some e' \<longrightarrow>
             synthesize_calls (fst (snd (generate_speech ext g request))) = []))"
proof -
  have only_empty:
    "status_code (snd (snd (generate_speech ext g request))) = Some 400 \<longrightarrow>
       text_field request = []"
    using generate_speech_status_400 [of ext g request] by blast
  have empty:
    "\<not> truthy (loading_error g) \<and> model_instance g = Some m \<and> text_field request = [] \<longrightarrow>
       status_code (snd (snd (generate_speech ext g request))) = Some 400"
    by (simp add: generate_speech_def)
  have called:
    "\<not> truthy (loading_error g) \<and> model_instance g = Some m \<and> text_field request \<noteq> []
       \<and> print_stdout ext (received_line ext request) = None \<longrightarrow>
     synthesize_calls (fst (snd (generate_speech ext g request)))
       = [Call_synthesize m (text_field request) (voice_name request)]"
    by (simp add: generate_speech_ready_calls)
  have not_called:
    "\<not> truthy (loading_error g) \<and> model_instance g = Some m \<and> text_field request \<noteq> []
       \<and> print_stdout ext (received_line ext request) = Some e' \<longrightarrow>
     synthesize_calls (fst (snd (generate_speech ext g request))) = []"
    by (simp add: generate_speech_ready_calls)
  have escapes:
    "\<not> truthy (loading_error g) \<and> model_instance g = Some m \<and> text_field request \<noteq> []
       \<and> print_stdout ext (received_line ext request) = None
       \<and> synthesize ext m (text_field request) (voice_name request) = Inl e
       \<and> \<not> is_Exception e \<longrightarrow>
     snd (snd (generate_speech ext g request)) = Propagate e"
    by (simp add: generate_speech_ready generate_speech_try_def Let_def)
  have returns:
    "\<not> truthy (loading_error g) \<and> model_instance g = Some m \<and> text_field request \<noteq> []
       \<and> print_stdout ext (received_line ext request) = None
       \<and> synthesize ext m (text_field request) (voice_name request) = Inr samples
       \<and> sampling_rate ext m = Inr rate
       \<and> sf_write ext samples rate ''WAV'' = Inr wav
       \<and> print_stdout ext (success_line ext) = None \<longrightarrow>
     snd (snd (generate_speech ext g request)) = Return_Response wav ''audio/wav''"
    by (simp add: generate_speech_ready generate_speech_try_returns)
  from only_empty empty called not_called escapes returns show ?thesis
    by blast
qed

text \<open>
  The amended C9 at a ready service: the empty text is answered with 400; a text of three
  spaces is passed to the synthesis function as it is, and the response holds the samples
  of three spaces; a \<open>SystemExit\<close> of the call on the three spaces leaves the handler; a
  lone surrogate is not passed on.
\<close>

theorem text_check_exact_witness:
  "status_code (snd (snd (generate_speech example_externals example_ready empty_request)))
     = Some 400
   \<and> text_field empty_request = []
   \<and> synthesize_calls (fst (snd (generate_speech example_externals example_ready blank_request)))
     = [Call_synthesize 7 ''   '' ''EN-US'']
   \<and> snd (snd (generate_speech example_externals example_ready blank_request))
     = Return_Response [0x52, 0x49, 0x46, 0x46, 32, 32, 32] ''audio/wav''
   \<and> snd (snd (generate_speech (synthesize_raising system_exit) example_ready blank_request))
     = Propagate system_exit
   \<and> synthesize_calls (fst (snd (generate_speech example_externals example_ready
                                   surrogate_request))) = []"
proof -
  note fixtures = example_ready_def empty_request_def blank_request_def surrogate_request_def
    synthesize_raising_def example_externals_def received_line_def success_line_def
    log_tag_def strict_stdout_def system_exit_def
  have ready: "\<not> truthy (loading_error example_ready) \<and> model_instance example_ready = Some 7"
    by (simp add: example_ready_def)
  have w1: "status_code (snd (snd (generate_speech example_externals example_ready
                                     empty_request))) = Some 400"
    using text_check_exact [where g = example_ready and m = 7 and ext = example_externals
                              and request = empty_request] ready
    by (simp add: empty_request_def)
  have blank: "text_field blank_request \<noteq> []
      \<and> print_stdout example_externals (received_line example_externals blank_request) = None"
    by (simp add: fixtures)
  have synth: "synthesize example_externals 7 (text_field blank_request)
                 (voice_name blank_request) = Inr [32, 32, 32]
      \<and> sampling_rate example_externals 7 = Inr 44100
      \<and> sf_write example_externals [32, 32, 32] 44100 ''WAV''
          = Inr [0x52, 0x49, 0x46, 0x46, 32, 32, 32]
      \<and> print_stdout example_externals (success_line example_externals) = None"
    by (simp add: fixtures)
  have w2: "synthesize_calls (fst (snd (generate_speech example_externals example_ready
                                          blank_request)))
              = [Call_synthesize 7 (text_field blank_request) (voice_name blank_request)]
      \<and> snd (snd (generate_speech example_externals example_ready blank_request))
          = Return_Response [0x52, 0x49, 0x46, 0x46, 32, 32, 32] ''audio/wav''"
    using text_check_exact [where g = example_ready and m = 7 and ext = example_externals
                              and request = blank_request and samples = "[32, 32, 32]"
                              and rate = 44100
                              and wav = "[0x52, 0x49, 0x46, 0x46, 32, 32, 32]"]
          ready blank synth
    by blast
  have blank_exit: "text_field blank_request \<noteq> []
      \<and> print_stdout (synthesize_raising system_exit)
            (received_line (synthesize_raising system_exit) blank_request) = None
      \<and> synthesize (synthesize_raising system_exit) 7 (text_field blank_request)
            (voice_name blank_request) = Inl system_exit
      \<and> \<not> is_Exception system_exit"
    by (simp add: fixtures)
  have w3: "snd (snd (generate_speech (synthesize_raising system_exit) example_ready
                        blank_request)) = Propagate system_exit"
    using text_check_exact [where g = example_ready and m = 7
                              and ext = "synthesize_raising system_exit"
                              and request = blank_request and e = system_exit]
          ready blank_exit
    by blast
  have surrogate: "text_field surrogate_request \<noteq> []
      \<and> print_stdout example_externals (received_line example_externals surrogate_request)
          = Some unicode_encode_error"
    by (simp add: fixtures)
  have w4: "synthesize_calls (fst (snd (generate_speech example_externals example_ready
                                          surrogate_request))) = []"
    using text_check_exact [where g = example_ready and m = 7 and ext = example_externals
                              and request = surrogate_request and e' = unicode_encode_error]
          ready surrogate
    by blast
  from w1 w2 w3 w4 show ?thesis
    by (simp add: empty_request_def blank_request_def)
qed

subsection \<open>C10: a loading error takes precedence over a model handle\<close>

text \<open>
  Claim C10. When a loading error is set, GET / reports status \<open>error\<close> and
  POST /tts raises 503 with the captured message, for every value of \<open>model_instance\<close>:
  the handle is not looked at.
\<close>

theorem loading_error_precedes_model_instance:
  assumes "loading_error g = Some msg" and "msg \<noteq> []"
  shows "read_root (g\<lparr>model_instance := handle\<rparr>) =
           (g\<lparr>model_instance := handle\<rparr>,
            Return_dict [(''status'', ''error''),
                         (''message'', ''API is running but model failed to load: '' @ msg)])
         \<and> generate_speech ext (g\<lparr>model_instance := handle\<rparr>) request =
           (g\<lparr>model_instance := handle\<rparr>, [],
            Raise_HTTPException 503 (''Service Unavailable: Model failed to load: '' @ msg))"
  using assms by (simp add: read_root_def generate_speech_def)

text \<open>
  C10 with a loading error and a model handle both present.
\<close>

theorem loading_error_precedes_model_instance_witness:
  "read_root (example_failed\<lparr>model_instance := Some 7\<rparr>) =
     (example_failed\<lparr>model_instance := Some 7\<rparr>,
      Return_dict [(''status'', ''error''),
                   (''message'', ''API is running but model failed to load: ''
                                 @ ''Failed to load MeloTTS model: out of memory'')])
   \<and> generate_speech example_externals (example_failed\<lparr>model_instance := Some 7\<rparr>) hello_request =
     (example_failed\<lparr>model_instance := Some 7\<rparr>, [],
      Raise_HTTPException 503
        (''Service Unavailable: Model failed to load: ''
         @ ''Failed to load MeloTTS model: out of memory''))"
proof -
  have a: "loading_error example_failed = Some ''Failed to load MeloTTS model: out of memory''"
    and b: "''Failed to load MeloTTS model: out of memory'' \<noteq> []"
    by (simp_all add: example_failed_def)
  show ?thesis
    using loading_error_precedes_model_instance
            [OF a b, where handle = "Some 7" and ext = example_externals
               and request = hello_request]
    by simp
qed

end
